theory Spec2Isabelle
  imports Main
begin

section \<open>Data model (types.ts and the component state of App.tsx)\<close>

text \<open>
  JavaScript strings are modelled as \<open>string\<close>: a character stands for one code unit
  (restricted to the 8-bit range), so \<open>length\<close> is the source's \<open>.length\<close>.
  JavaScript numbers are modelled as \<open>int\<close> where the source uses them as indices,
  counts and durations.
\<close>

record QuizQuestion =
  question :: string
  options :: "string list"
  correctAnswer :: string

datatype AppState = Setup | Generating | Quiz | Review | Results

subsection \<open>The \<open>string[]\<close> holding the user's answers\<close>

text \<open>
  A JavaScript array is indexed by any number. Positions \<open>0 .. length - 1\<close> are its
  elements (\<open>None\<close> is \<open>undefined\<close>, which is what a hole reads as); a write at a
  position at or beyond the length extends the array; a write at a negative integer
  creates an ordinary property, which does not count towards the length and which the
  spread copy \<open>[...a]\<close> does not carry over. Indices are integers below the limit of
  the language for array indices.
\<close>

record string_array =
  elems :: "string option list"
  props :: "(int \<times> string) list"

definition array_length :: "string_array \<Rightarrow> nat" where
  "array_length a = length (elems a)"

definition array_get :: "string_array \<Rightarrow> int \<Rightarrow> string option" where
  "array_get a i =
     (if 0 \<le> i then (if nat i < length (elems a) then elems a ! nat i else None)
      else map_of (props a) i)"

definition array_set :: "string_array \<Rightarrow> int \<Rightarrow> string \<Rightarrow> string_array" where
  "array_set a i v =
     (if 0 \<le> i then
        (if nat i < length (elems a) then a\<lparr>elems := (elems a)[nat i := Some v]\<rparr>
         else a\<lparr>elems := elems a @ replicate (nat i - length (elems a)) None @ [Some v]\<rparr>)
      else a\<lparr>props := (i, v) # props a\<rparr>)"

definition array_spread :: "string_array \<Rightarrow> string_array" where
  \<comment> \<open>\<open>[...a]\<close>\<close>
  "array_spread a = \<lparr>elems = elems a, props = []\<rparr>"

definition array_empty :: string_array where
  \<comment> \<open>\<open>[]\<close>\<close>
  "array_empty = \<lparr>elems = [], props = []\<rparr>"

definition array_fill :: "nat \<Rightarrow> string \<Rightarrow> string_array" where
  \<comment> \<open>\<open>new Array(n).fill(v)\<close>\<close>
  "array_fill n v = \<lparr>elems = replicate n (Some v), props = []\<rparr>"

subsection \<open>Component state: the six \<open>useState\<close> cells of \<open>App\<close>\<close>

record App =
  appState :: AppState
  quizQuestions :: "QuizQuestion list"
  userAnswers :: string_array
  currentQuestionIndex :: int
  timerDuration :: int
  error :: "string option"

definition App_initial :: App where
  "App_initial =
     \<lparr>appState = Setup, quizQuestions = [], userAnswers = array_empty,
      currentQuestionIndex = 0, timerDuration = 30, error = None\<rparr>"

section \<open>Handlers of the quiz, review and results phases\<close>

definition handleAnswerSelect :: "string \<Rightarrow> App \<Rightarrow> App" where
  "handleAnswerSelect answer s =
     (let newAnswers = array_spread (userAnswers s);
          newAnswers = array_set newAnswers (currentQuestionIndex s) answer
      in s\<lparr>userAnswers := newAnswers\<rparr>)"

definition handleNextQuestion :: "App \<Rightarrow> App" where
  "handleNextQuestion s =
     (if currentQuestionIndex s < int (length (quizQuestions s)) - 1
      then s\<lparr>currentQuestionIndex := currentQuestionIndex s + 1\<rparr>
      else s)"

definition handlePrevQuestion :: "App \<Rightarrow> App" where
  "handlePrevQuestion s =
     (if currentQuestionIndex s > 0
      then s\<lparr>currentQuestionIndex := currentQuestionIndex s - 1\<rparr>
      else s)"

definition handleQuizFinish :: "App \<Rightarrow> App" where
  "handleQuizFinish s = s\<lparr>appState := Review\<rparr>"

definition handleFinalSubmit :: "App \<Rightarrow> App" where
  "handleFinalSubmit s = s\<lparr>appState := Results\<rparr>"

definition handleJumpToQuestion :: "int \<Rightarrow> App \<Rightarrow> App" where
  "handleJumpToQuestion index s = s\<lparr>currentQuestionIndex := index, appState := Quiz\<rparr>"

definition handleRetry :: "App \<Rightarrow> App" where
  "handleRetry s =
     s\<lparr>quizQuestions := [], userAnswers := array_empty, currentQuestionIndex := 0,
       error := None, appState := Setup\<rparr>"

section \<open>String operations of the JavaScript runtime\<close>

definition upper_letters :: string where
  \<comment> \<open>the code units below 256 that have a lower-case form: A to Z and the accented
      capitals 0xC0 to 0xDE without the multiplication sign 0xD7\<close>
  "upper_letters =
     ''ABCDEFGHIJKLMNOPQRSTUVWXYZ'' @
     [CHR 0xC0, CHR 0xC1, CHR 0xC2, CHR 0xC3, CHR 0xC4, CHR 0xC5, CHR 0xC6, CHR 0xC7,
      CHR 0xC8, CHR 0xC9, CHR 0xCA, CHR 0xCB, CHR 0xCC, CHR 0xCD, CHR 0xCE, CHR 0xCF,
      CHR 0xD0, CHR 0xD1, CHR 0xD2, CHR 0xD3, CHR 0xD4, CHR 0xD5, CHR 0xD6,
      CHR 0xD8, CHR 0xD9, CHR 0xDA, CHR 0xDB, CHR 0xDC, CHR 0xDD, CHR 0xDE]"

definition lower_letters :: string where
  "lower_letters =
     ''abcdefghijklmnopqrstuvwxyz'' @
     [CHR 0xE0, CHR 0xE1, CHR 0xE2, CHR 0xE3, CHR 0xE4, CHR 0xE5, CHR 0xE6, CHR 0xE7,
      CHR 0xE8, CHR 0xE9, CHR 0xEA, CHR 0xEB, CHR 0xEC, CHR 0xED, CHR 0xEE, CHR 0xEF,
      CHR 0xF0, CHR 0xF1, CHR 0xF2, CHR 0xF3, CHR 0xF4, CHR 0xF5, CHR 0xF6,
      CHR 0xF8, CHR 0xF9, CHR 0xFA, CHR 0xFB, CHR 0xFC, CHR 0xFD, CHR 0xFE]"

definition toLowerCase_char :: "char \<Rightarrow> char" where
  "toLowerCase_char c =
     (case map_of (zip upper_letters lower_letters) c of
        None \<Rightarrow> c
      | Some l \<Rightarrow> l)"

definition toLowerCase :: "string \<Rightarrow> string" where
  "toLowerCase s = map toLowerCase_char s"

fun split :: "char \<Rightarrow> string \<Rightarrow> string list" where
  \<comment> \<open>\<open>s.split(sep)\<close> for a one-character separator; never the empty array\<close>
  "split sep [] = [[]]"
| "split sep (c # cs) =
     (if c = sep then [] # split sep cs
      else (case split sep cs of [] \<Rightarrow> [[c]] | p # ps \<Rightarrow> (c # p) # ps))"

definition pop :: "'a list \<Rightarrow> 'a option" where
  \<comment> \<open>the value of \<open>xs.pop()\<close>: the last element, \<open>undefined\<close> on the empty array\<close>
  "pop xs = (if xs = [] then None else Some (last xs))"

definition isWhiteSpace :: "char \<Rightarrow> bool" where
  \<comment> \<open>tab, line feed, vertical tab, form feed, carriage return, space, no-break space\<close>
  "isWhiteSpace c =
     (c \<in> set [CHR 0x09, CHR 0x0A, CHR 0x0B, CHR 0x0C, CHR 0x0D, CHR 0x20, CHR 0xA0])"

definition trim :: "string \<Rightarrow> string" where
  "trim s = rev (dropWhile isWhiteSpace (rev (dropWhile isWhiteSpace s)))"

definition substring :: "string \<Rightarrow> nat \<Rightarrow> nat \<Rightarrow> string" where
  \<comment> \<open>\<open>s.substring(a, b)\<close> for \<open>a \<le> b\<close>; both ends are clamped to the length\<close>
  "substring s a b = take (b - a) (drop a s)"

fun join :: "string list \<Rightarrow> string \<Rightarrow> string" where
  "join [] sep = []"
| "join [x] sep = x"
| "join (x # y # ys) sep = x @ sep @ join (y # ys) sep"

fun string_of_nat :: "nat \<Rightarrow> string" where
  \<comment> \<open>a non-negative integer inside a template literal: its decimal digits\<close>
  "string_of_nat n =
     (if n < 10 then [''0123456789'' ! n]
      else string_of_nat (n div 10) @ [''0123456789'' ! (n mod 10)])"

definition digit_value :: "char \<Rightarrow> nat" where
  "digit_value c = (of_char c :: nat) - 48"

definition nat_of_digits :: "string \<Rightarrow> nat" where
  \<comment> \<open>reads a decimal numeral back: the number a reader of the message sees\<close>
  "nat_of_digits s = foldl (\<lambda>a c. 10 * a + digit_value c) 0 s"

section \<open>Failures\<close>

text \<open>
  A JavaScript \<open>throw\<close> or a rejected promise carries any value. The handler tells
  \<open>Error\<close> objects, which have a message, from everything else.
\<close>

datatype thrown = Error string | NonError

definition ReadFailure_onerror :: thrown where
  "ReadFailure_onerror = Error ''An error occurred while reading the file.''"

definition ReadFailure_noresult :: thrown where
  "ReadFailure_noresult = Error ''Failed to read file.''"

definition UnsupportedFormat :: thrown where
  "UnsupportedFormat = Error ''Unsupported file type. Please upload a PDF, DOC, or DOCX file.''"

definition ParseFailure_pdf :: thrown where
  "ParseFailure_pdf =
     Error ''Failed to parse the PDF. It might be corrupted, password-protected, or in an unsupported format.''"

definition ParseFailure_word :: thrown where
  "ParseFailure_word =
     Error ''Failed to parse the Word document. It might be corrupted or password-protected.''"

definition TooShort :: "nat \<Rightarrow> string \<Rightarrow> thrown" where
  "TooShort len snippet =
     Error (''Document content is too short ('' @ string_of_nat len @
            '' characters) to generate a meaningful quiz. This can happen if the document is very brief or is image-based from which text cannot be extracted.'' @
            [CHR 0x0A, CHR 0x0A] @ ''Extracted text snippet: '' @ [CHR 0x22] @ snippet @
            ''...'' @ [CHR 0x22])"

definition errorMessage :: "thrown \<Rightarrow> string" where
  \<comment> \<open>\<open>err instanceof Error ? err.message : '...'\<close>\<close>
  "errorMessage err =
     (case err of
        Error message \<Rightarrow> message
      | NonError \<Rightarrow> ''An unknown error occurred while generating the quiz.'')"

section \<open>External collaborators\<close>

text \<open>
  The file reader, the PDF and Word decoders and the quiz producer are not part of the
  repository. Their answers are parameters of the model: every call either throws
  (\<open>Inl\<close>) or returns (\<open>Inr\<close>).
\<close>

type_synonym ArrayBuffer = "nat list"

datatype read_event = onerror | onload "ArrayBuffer option"

record File =
  name :: string
  readAsArrayBuffer :: read_event

record TextItem =
  str :: string

record PDFPage =
  getTextContent :: "thrown + TextItem list"

record PDFDocument =
  numPages :: nat
  getPage :: "nat \<Rightarrow> thrown + PDFPage"

record collaborators =
  getDocument :: "ArrayBuffer \<Rightarrow> thrown + PDFDocument"
  extractRawText :: "ArrayBuffer \<Rightarrow> thrown + string"
  generateQuizFromText :: "string \<Rightarrow> int \<Rightarrow> thrown + QuizQuestion list"

section \<open>Text extraction\<close>

function pdf_pages_loop :: "PDFDocument \<Rightarrow> nat \<Rightarrow> string \<Rightarrow> thrown + string" where
  "pdf_pages_loop pdf i fullText =
     (if i \<le> numPages pdf then
        (case getPage pdf i of
           Inl e \<Rightarrow> Inl e
         | Inr page \<Rightarrow>
             (case getTextContent page of
                Inl e \<Rightarrow> Inl e
              | Inr items \<Rightarrow>
                  (let pageText = join (map str items) '' ''
                   in pdf_pages_loop pdf (i + 1) (fullText @ pageText @ [CHR 0x0A, CHR 0x0A]))))
      else Inr fullText)"
  by pat_completeness auto
termination
  by (relation "measure (\<lambda>(pdf, i, fullText). numPages pdf + 1 - i)") auto

definition parse_body ::
  "collaborators \<Rightarrow> string option \<Rightarrow> ArrayBuffer \<Rightarrow> thrown + (thrown + string)" where
  \<comment> \<open>the \<open>try\<close> block of \<open>onload\<close>: \<open>Inl\<close> is an exception on its way to the
      \<open>catch\<close>, \<open>Inr\<close> is the promise settled inside the block\<close>
  "parse_body env extension arrayBuffer =
     (if extension = Some ''pdf'' then
        (case getDocument env arrayBuffer of
           Inl e \<Rightarrow> Inl e
         | Inr pdf \<Rightarrow>
             (case pdf_pages_loop pdf 1 [] of
                Inl e \<Rightarrow> Inl e
              | Inr fullText \<Rightarrow> Inr (Inr fullText)))
      else if extension = Some ''docx'' \<or> extension = Some ''doc'' then
        (case extractRawText env arrayBuffer of
           Inl e \<Rightarrow> Inl e
         | Inr v \<Rightarrow> Inr (Inr v))
      else Inr (Inl UnsupportedFormat))"

definition file_extension :: "File \<Rightarrow> string option" where
  \<comment> \<open>\<open>file.name.split('.').pop()?.toLowerCase()\<close>\<close>
  "file_extension file = map_option toLowerCase (pop (split CHR ''.'' (name file)))"

definition extractTextFromFile :: "collaborators \<Rightarrow> File \<Rightarrow> thrown + string" where
  "extractTextFromFile env file =
     (let extension = file_extension file
      in case readAsArrayBuffer file of
           onerror \<Rightarrow> Inl ReadFailure_onerror
         | onload None \<Rightarrow> Inl ReadFailure_noresult
         | onload (Some arrayBuffer) \<Rightarrow>
             (case parse_body env extension arrayBuffer of
                Inr settled \<Rightarrow> settled
              | Inl e \<Rightarrow>
                  (if extension = Some ''pdf'' then Inl ParseFailure_pdf
                   else Inl ParseFailure_word)))"

section \<open>The generate-quiz pipeline\<close>

definition validate :: "string \<Rightarrow> thrown + unit" where
  \<comment> \<open>lines 23 to 27 of \<open>handleQuizGenerate\<close>\<close>
  "validate fileText =
     (let trimmedText = trim fileText
      in if length trimmedText < 100
         then (let snippet = substring trimmedText 0 100
               in Inl (TooShort (length trimmedText) snippet))
         else Inr ())"

definition try_block :: "collaborators \<Rightarrow> File \<Rightarrow> int \<Rightarrow> thrown + QuizQuestion list" where
  \<comment> \<open>the fallible part of the \<open>try\<close> block: everything before the first setter\<close>
  "try_block env file numQuestions =
     (case extractTextFromFile env file of
        Inl e \<Rightarrow> Inl e
      | Inr fileText \<Rightarrow>
          (case validate fileText of
             Inl e \<Rightarrow> Inl e
           | Inr _ \<Rightarrow> generateQuizFromText env fileText numQuestions))"

datatype setter =
    setAppState AppState
  | setQuizQuestions "QuizQuestion list"
  | setUserAnswers string_array
  | setCurrentQuestionIndex int
  | setTimerDuration int
  | setError "string option"

fun apply_setter :: "setter \<Rightarrow> App \<Rightarrow> App" where
  "apply_setter (setAppState v) s = s\<lparr>appState := v\<rparr>"
| "apply_setter (setQuizQuestions v) s = s\<lparr>quizQuestions := v\<rparr>"
| "apply_setter (setUserAnswers v) s = s\<lparr>userAnswers := v\<rparr>"
| "apply_setter (setCurrentQuestionIndex v) s = s\<lparr>currentQuestionIndex := v\<rparr>"
| "apply_setter (setTimerDuration v) s = s\<lparr>timerDuration := v\<rparr>"
| "apply_setter (setError v) s = s\<lparr>error := v\<rparr>"

definition handleQuizGenerate_calls ::
  "collaborators \<Rightarrow> File \<Rightarrow> int \<Rightarrow> int \<Rightarrow> setter list" where
  \<comment> \<open>the setter calls \<open>handleQuizGenerate\<close> makes, in the order it makes them\<close>
  "handleQuizGenerate_calls env file numQuestions duration =
     [setAppState Generating, setError None] @
     (case try_block env file numQuestions of
        Inr questions \<Rightarrow>
          [setQuizQuestions questions,
           setUserAnswers (array_fill (length questions) []),
           setTimerDuration duration,
           setCurrentQuestionIndex 0,
           setAppState Quiz]
      | Inl err \<Rightarrow>
          [setError (Some (errorMessage err)),
           setAppState Setup])"

fun states_after :: "setter list \<Rightarrow> App \<Rightarrow> App list" where
  \<comment> \<open>the component state after each setter call\<close>
  "states_after [] s = []"
| "states_after (c # cs) s = apply_setter c s # states_after cs (apply_setter c s)"

definition handleQuizGenerate :: "collaborators \<Rightarrow> File \<Rightarrow> int \<Rightarrow> int \<Rightarrow> App \<Rightarrow> App" where
  "handleQuizGenerate env file numQuestions duration s =
     fold apply_setter (handleQuizGenerate_calls env file numQuestions duration) s"

section \<open>The workflow as a machine driven by user events\<close>

datatype event =
    Generate collaborators File int int
  | AnswerSelect string
  | Next
  | Prev
  | Finish
  | JumpToQuestion int
  | FinalSubmit
  | Retry

fun dispatch :: "event \<Rightarrow> App \<Rightarrow> App" where
  \<comment> \<open>\<open>renderContent\<close>: each handler is wired to the view of one \<open>appState\<close> only\<close>
  "dispatch (Generate env file numQuestions duration) s =
     (if appState s = Setup then handleQuizGenerate env file numQuestions duration s else s)"
| "dispatch (AnswerSelect answer) s =
     (if appState s = Quiz then handleAnswerSelect answer s else s)"
| "dispatch Next s = (if appState s = Quiz then handleNextQuestion s else s)"
| "dispatch Prev s = (if appState s = Quiz then handlePrevQuestion s else s)"
| "dispatch Finish s = (if appState s = Quiz then handleQuizFinish s else s)"
| "dispatch (JumpToQuestion index) s =
     (if appState s = Review then handleJumpToQuestion index s else s)"
| "dispatch FinalSubmit s = (if appState s = Review then handleFinalSubmit s else s)"
| "dispatch Retry s = (if appState s = Results then handleRetry s else s)"

fun run :: "event list \<Rightarrow> App \<Rightarrow> App" where
  "run [] s = s"
| "run (e # es) s = run es (dispatch e s)"

subsection \<open>The session invariant and the events that respect it\<close>

definition session_inv :: "App \<Rightarrow> bool" where
  "session_inv s =
     (0 \<le> currentQuestionIndex s \<and>
      currentQuestionIndex s < int (length (quizQuestions s)) \<and>
      array_length (userAnswers s) = length (quizQuestions s))"

definition phase_inv :: "App \<Rightarrow> bool" where
  "phase_inv s = (appState s = Quiz \<or> appState s = Review \<longrightarrow> session_inv s)"

fun admissible :: "event \<Rightarrow> App \<Rightarrow> bool" where
  \<comment> \<open>what the handlers leave to their callers: a jump names an existing question, and
      the quiz producer does not answer with an empty list\<close>
  "admissible (JumpToQuestion index) s =
     (0 \<le> index \<and> index < int (length (quizQuestions s)))"
| "admissible (Generate env file numQuestions duration) s =
     (try_block env file numQuestions \<noteq> Inr [])"
| "admissible e s = True"

fun admissible_run :: "event list \<Rightarrow> App \<Rightarrow> bool" where
  "admissible_run [] s = True"
| "admissible_run (e # es) s = (admissible e s \<and> admissible_run es (dispatch e s))"

section \<open>The PDF text format in the words of the specification\<close>

definition spec_pdf_text :: "string list list \<Rightarrow> string" where
  \<comment> \<open>each page's tokens joined by single spaces, consecutive pages separated by a
      blank line\<close>
  "spec_pdf_text pages = join (map (\<lambda>tokens. join tokens '' '') pages) [CHR 0x0A, CHR 0x0A]"

section \<open>Concrete inputs\<close>

definition q1 :: QuizQuestion where
  "q1 = \<lparr>question = ''What is 2 + 2?'', options = [''3'', ''4'', ''5''], correctAnswer = ''4''\<rparr>"

definition q2 :: QuizQuestion where
  "q2 = \<lparr>question = ''Capital of France?'', options = [''Paris'', ''Rome''],
          correctAnswer = ''Paris''\<rparr>"

definition q3 :: QuizQuestion where
  "q3 = \<lparr>question = ''Largest planet?'', options = [''Mars'', ''Jupiter''],
          correctAnswer = ''Jupiter''\<rparr>"

definition long_text :: string where
  "long_text =
     ''  The mitochondrion is the powerhouse of the cell. It produces most of the chemical energy needed to power the cell.  ''"

definition page_one :: PDFPage where
  "page_one = \<lparr>getTextContent = Inr [\<lparr>str = ''Hello''\<rparr>, \<lparr>str = ''world''\<rparr>]\<rparr>"

definition page_two :: PDFPage where
  "page_two = \<lparr>getTextContent = Inr [\<lparr>str = ''Bye''\<rparr>]\<rparr>"

definition page_broken :: PDFPage where
  "page_broken = \<lparr>getTextContent = Inl NonError\<rparr>"

definition one_page_pdf :: PDFDocument where
  "one_page_pdf = \<lparr>numPages = 1, getPage = (\<lambda>i. Inr page_one)\<rparr>"

definition two_page_pdf :: PDFDocument where
  "two_page_pdf =
     \<lparr>numPages = 2, getPage = (\<lambda>i. if i = 1 then Inr page_one else Inr page_two)\<rparr>"

definition broken_pdf :: PDFDocument where
  "broken_pdf =
     \<lparr>numPages = 2, getPage = (\<lambda>i. if i = 1 then Inr page_one else Inr page_broken)\<rparr>"

definition env0 :: collaborators where
  \<comment> \<open>the buffers \<open>[1]\<close>, \<open>[2]\<close> and \<open>[3]\<close> open as the three PDF documents above and no
      other buffer opens as a PDF; the Word decoder returns \<open>long_text\<close> for every buffer
      but the empty one; the producer cuts its answer to the requested count\<close>
  "env0 =
     \<lparr>getDocument = (\<lambda>b. if b = [1] then Inr one_page_pdf
                         else if b = [2] then Inr two_page_pdf
                         else if b = [3] then Inr broken_pdf
                         else Inl (Error ''Invalid PDF structure'')),
      extractRawText = (\<lambda>b. if b = [] then Inl NonError else Inr long_text),
      generateQuizFromText =
        (\<lambda>text n. if text = long_text then Inr (take (nat n) [q1, q2, q3])
                   else Inl (Error ''The model returned no questions.''))\<rparr>"

definition docx_file :: File where
  "docx_file = \<lparr>name = ''Biology.Notes.DOCX'', readAsArrayBuffer = onload (Some [7])\<rparr>"

definition txt_file_unreadable :: File where
  "txt_file_unreadable = \<lparr>name = ''notes.txt'', readAsArrayBuffer = onerror\<rparr>"

definition txt_file :: File where
  "txt_file = \<lparr>name = ''notes.txt'', readAsArrayBuffer = onload (Some [7])\<rparr>"

definition pdf_file_one :: File where
  "pdf_file_one = \<lparr>name = ''slides.PDF'', readAsArrayBuffer = onload (Some [1])\<rparr>"

definition pdf_file_two :: File where
  "pdf_file_two = \<lparr>name = ''slides.pdf'', readAsArrayBuffer = onload (Some [2])\<rparr>"

definition pdf_file_broken :: File where
  "pdf_file_broken = \<lparr>name = ''slides.pdf'', readAsArrayBuffer = onload (Some [3])\<rparr>"

definition env_empty :: collaborators where
  \<comment> \<open>as \<open>env0\<close>, with a producer that answers with an empty list\<close>
  "env_empty = env0\<lparr>generateQuizFromText := (\<lambda>text n. Inr [])\<rparr>"

definition env_rejecting :: collaborators where
  \<comment> \<open>as \<open>env0\<close>, with a producer that rejects with a value that is no \<open>Error\<close>\<close>
  "env_rejecting = env0\<lparr>generateQuizFromText := (\<lambda>text n. Inl NonError)\<rparr>"

definition installed :: App where
  "installed = handleQuizGenerate env0 docx_file 3 45 App_initial"

definition jumped_out :: App where
  "jumped_out = run [Finish, JumpToQuestion 5] installed"

definition installed_empty :: App where
  "installed_empty = handleQuizGenerate env_empty docx_file 3 45 App_initial"

section \<open>Auxiliary facts\<close>

lemmas toLowerCase_simps =
  toLowerCase_def toLowerCase_char_def upper_letters_def lower_letters_def

subsection \<open>What \<open>trim\<close> computes\<close>

lemma rev_dropWhile_rev: "xs = rev (dropWhile P (rev xs)) @ rev (takeWhile P (rev xs))"
proof -
  have "rev (rev xs) = rev (takeWhile P (rev xs) @ dropWhile P (rev xs))"
    by (simp only: takeWhile_dropWhile_id)
  then show ?thesis
    by (simp only: rev_rev_ident rev_append)
qed

lemma dropWhile_trim:
  "dropWhile isWhiteSpace s = trim s @ rev (takeWhile isWhiteSpace (rev (dropWhile isWhiteSpace s)))"
  unfolding trim_def by (rule rev_dropWhile_rev)

lemma trim_decomposition:
  "\<exists>l r. s = l @ trim s @ r \<and> (\<forall>c \<in> set l. isWhiteSpace c) \<and> (\<forall>c \<in> set r. isWhiteSpace c)"
proof -
  let ?l = "takeWhile isWhiteSpace s"
  let ?r = "rev (takeWhile isWhiteSpace (rev (dropWhile isWhiteSpace s)))"
  have "s = ?l @ dropWhile isWhiteSpace s"
    by simp
  then have "s = ?l @ trim s @ ?r"
    using dropWhile_trim [of s] by simp
  moreover have "\<forall>c \<in> set ?l. isWhiteSpace c"
    by (auto dest: set_takeWhileD)
  moreover have "\<forall>c \<in> set ?r. isWhiteSpace c"
    by (auto dest: set_takeWhileD)
  ultimately show ?thesis by blast
qed

lemma trim_ends:
  assumes "trim s \<noteq> []"
  shows "\<not> isWhiteSpace (hd (trim s))" and "\<not> isWhiteSpace (last (trim s))"
proof -
  let ?d = "dropWhile isWhiteSpace s"
  let ?e = "dropWhile isWhiteSpace (rev ?d)"
  from assms have e: "?e \<noteq> []"
    by (simp add: trim_def)
  then have "\<not> isWhiteSpace (hd ?e)"
    by (rule hd_dropWhile)
  with e show "\<not> isWhiteSpace (last (trim s))"
    by (simp add: trim_def last_rev)
  have d: "?d \<noteq> []"
  proof
    assume "?d = []"
    then have "trim s = []"
      by (simp only: trim_def rev.simps dropWhile.simps)
    with assms show False by simp
  qed
  then have nd: "\<not> isWhiteSpace (hd ?d)"
    by (rule hd_dropWhile)
  from assms dropWhile_trim [of s] have "hd ?d = hd (trim s)"
    by (metis hd_append2)
  with nd show "\<not> isWhiteSpace (hd (trim s))"
    by simp
qed

subsection \<open>The too-short message can be read back\<close>

declare string_of_nat.simps [simp del]

lemma below_ten: "(d::nat) < 10 \<Longrightarrow> d \<in> {0, 1, 2, 3, 4, 5, 6, 7, 8, 9}"
  by auto

lemma digit_value_nth: "d < 10 \<Longrightarrow> digit_value (''0123456789'' ! d) = d"
  by (drule below_ten) (auto simp: digit_value_def)

lemma digit_nth_is_digit: "d < 10 \<Longrightarrow> ''0123456789'' ! d \<in> set ''0123456789''"
  by (rule nth_mem) simp

lemma nat_of_digits_snoc: "nat_of_digits (s @ [c]) = 10 * nat_of_digits s + digit_value c"
  by (simp add: nat_of_digits_def)

lemma nat_of_digits_string_of_nat: "nat_of_digits (string_of_nat n) = n"
proof (induction n rule: string_of_nat.induct)
  case (1 n)
  show ?case
  proof (cases "n < 10")
    case True
    then show ?thesis
      by (simp add: string_of_nat.simps [of n] nat_of_digits_def digit_value_nth)
  next
    case False
    with "1.IH" show ?thesis
      by (simp add: string_of_nat.simps [of n] nat_of_digits_snoc digit_value_nth)
  qed
qed

lemma string_of_nat_digits: "set (string_of_nat n) \<subseteq> set ''0123456789''"
proof (induction n rule: string_of_nat.induct)
  case (1 n)
  show ?case
  proof (cases "n < 10")
    case True
    then show ?thesis
      using digit_nth_is_digit [of n] by (simp add: string_of_nat.simps [of n])
  next
    case False
    with "1.IH" show ?thesis
      using digit_nth_is_digit [of "n mod 10"] by (simp add: string_of_nat.simps [of n])
  qed
qed

lemma string_of_nat_inj: "string_of_nat m = string_of_nat n \<Longrightarrow> m = n"
  by (metis nat_of_digits_string_of_nat)

lemma digits_then_space:
  assumes "set d \<subseteq> set ''0123456789''"
  shows "takeWhile (\<lambda>c. c \<in> set ''0123456789'') (d @ CHR '' '' # r) = d"
proof -
  have "\<forall>c \<in> set d. c \<in> set ''0123456789''"
    using assms by blast
  then have "takeWhile (\<lambda>c. c \<in> set ''0123456789'') (d @ CHR '' '' # r) =
      d @ takeWhile (\<lambda>c. c \<in> set ''0123456789'') (CHR '' '' # r)"
    by (simp add: takeWhile_append2)
  then show ?thesis by simp
qed

lemma TooShort_inject:
  assumes "TooShort len snippet = TooShort len' snippet'"
  shows "len = len' \<and> snippet = snippet'"
proof -
  let ?tail = "\<lambda>s. ''characters) to generate a meaningful quiz. This can happen if the document is very brief or is image-based from which text cannot be extracted.'' @
            [CHR 0x0A, CHR 0x0A] @ ''Extracted text snippet: '' @ [CHR 0x22] @ s @
            ''...'' @ [CHR 0x22]"
  from assms have eq: "string_of_nat len @ CHR '' '' # ?tail snippet =
      string_of_nat len' @ CHR '' '' # ?tail snippet'"
    by (simp add: TooShort_def)
  then have "takeWhile (\<lambda>c. c \<in> set ''0123456789'') (string_of_nat len @ CHR '' '' # ?tail snippet) =
      takeWhile (\<lambda>c. c \<in> set ''0123456789'') (string_of_nat len' @ CHR '' '' # ?tail snippet')"
    by (rule arg_cong)
  then have digits: "string_of_nat len = string_of_nat len'"
    by (simp only: digits_then_space [OF string_of_nat_digits])
  then have len: "len = len'"
    by (rule string_of_nat_inj)
  from eq digits have "?tail snippet = ?tail snippet'"
    by simp
  then have "snippet = snippet'"
    by simp
  with len show ?thesis by simp
qed

subsection \<open>Splitting a file name at its dots\<close>

lemma split_not_Nil: "split sep s \<noteq> []"
  by (induction s) (auto split: list.splits)

lemma split_no_sep: "sep \<notin> set s \<Longrightarrow> split sep s = [s]"
  by (induction s) auto

lemma split_two: "sep \<in> set s \<Longrightarrow> \<exists>p q ps. split sep s = p # q # ps"
proof (induction s)
  case Nil
  then show ?case by simp
next
  case (Cons c cs)
  show ?case
  proof (cases "c = sep")
    case True
    then show ?thesis by (cases "split sep cs") (auto simp: split_not_Nil)
  next
    case False
    with Cons obtain p q ps where "split sep cs = p # q # ps" by auto
    with False show ?thesis by simp
  qed
qed

lemma last_split_append: "sep \<notin> set b \<Longrightarrow> last (split sep (a @ sep # b)) = b"
proof (induction a)
  case Nil
  then show ?case by (simp add: split_no_sep)
next
  case (Cons c cs)
  obtain p q ps where "split sep (cs @ sep # b) = p # q # ps"
    using split_two [of sep "cs @ sep # b"] by auto
  with Cons show ?case by auto
qed

subsection \<open>Array reads after writes\<close>

lemma array_get_set_same: "array_get (array_set (array_spread a) i v) i = Some v"
  by (auto simp: array_get_def array_set_def array_spread_def nth_append)

lemma array_get_set_other:
  "0 \<le> j \<Longrightarrow> j \<noteq> i \<Longrightarrow> array_get (array_set (array_spread a) i v) j = array_get a j"
  by (auto simp: array_get_def array_set_def array_spread_def nth_append nth_Cons')

lemma array_set_twice:
  "array_set (array_spread (array_set (array_spread a) i v)) i w = array_set (array_spread a) i w"
  by (auto simp: array_set_def array_spread_def list_update_append)

lemma array_length_set_in_range:
  "0 \<le> i \<Longrightarrow> i < int (array_length a) \<Longrightarrow>
   array_length (array_set (array_spread a) i v) = array_length a"
  by (auto simp: array_length_def array_set_def array_spread_def)

subsection \<open>The page loop\<close>

declare pdf_pages_loop.simps [simp del]

lemma pdf_pages_loop_all_decode:
  assumes "\<forall>k. i \<le> k \<and> k \<le> numPages pdf \<longrightarrow>
             (\<exists>page. getPage pdf k = Inr page \<and> getTextContent page = Inr (items k))"
  shows "pdf_pages_loop pdf i acc =
         Inr (acc @ concat (map (\<lambda>k. join (map str (items k)) '' '' @ [CHR 0x0A, CHR 0x0A])
                              [i..<Suc (numPages pdf)]))"
  using assms
proof (induction pdf i acc rule: pdf_pages_loop.induct)
  case (1 pdf i fullText)
  show ?case
  proof (cases "i \<le> numPages pdf")
    case False
    then show ?thesis by (simp add: pdf_pages_loop.simps [of pdf i fullText])
  next
    case True
    with "1.prems" obtain page where
      page: "getPage pdf i = Inr page" "getTextContent page = Inr (items i)"
      by auto
    have rest: "\<forall>k. i + 1 \<le> k \<and> k \<le> numPages pdf \<longrightarrow>
             (\<exists>page. getPage pdf k = Inr page \<and> getTextContent page = Inr (items k))"
      using "1.prems" by auto
    have range: "[i..<Suc (numPages pdf)] = i # [i + 1..<Suc (numPages pdf)]"
      using True by (simp add: upt_conv_Cons)
    have step: "pdf_pages_loop pdf i fullText =
        pdf_pages_loop pdf (i + 1)
          (fullText @ join (map str (items i)) '' '' @ [CHR 0x0A, CHR 0x0A])"
      using True page by (simp add: pdf_pages_loop.simps [of pdf i fullText])
    show ?thesis
      unfolding step "1.IH" [OF True page(1) page(2) refl rest] range
      by (simp del: upt_Suc)
  qed
qed

lemma pdf_pages_loop_page_fails:
  assumes "i \<le> k" "k \<le> numPages pdf"
    and "isl (getPage pdf k) \<or> (\<exists>page. getPage pdf k = Inr page \<and> isl (getTextContent page))"
  shows "isl (pdf_pages_loop pdf i acc)"
  using assms
proof (induction pdf i acc rule: pdf_pages_loop.induct)
  case (1 pdf i fullText)
  then have le: "i \<le> numPages pdf" by simp
  show ?case
  proof (cases "getPage pdf i")
    case (Inl e)
    with le show ?thesis by (simp add: pdf_pages_loop.simps [of pdf i fullText])
  next
    case (Inr page)
    note page = this
    show ?thesis
    proof (cases "getTextContent page")
      case (Inl e)
      with le page show ?thesis by (simp add: pdf_pages_loop.simps [of pdf i fullText])
    next
      case (Inr items)
      with page "1.prems" have "i \<noteq> k" by auto
      with "1.prems" have "i + 1 \<le> k" by simp
      from "1.IH" [OF le page Inr refl this "1.prems"(2) "1.prems"(3)] le page Inr
      show ?thesis by (simp add: pdf_pages_loop.simps [of pdf i fullText])
    qed
  qed
qed

lemma join_terminated:
  "pages \<noteq> [] \<Longrightarrow> concat (map (\<lambda>p. p @ sep) pages) = join pages sep @ sep"
  by (induction pages sep rule: join.induct) auto

subsection \<open>Failure values and the pipeline\<close>

lemma failures_distinct:
  "UnsupportedFormat \<noteq> ReadFailure_onerror" "UnsupportedFormat \<noteq> ReadFailure_noresult"
  "UnsupportedFormat \<noteq> ParseFailure_pdf" "UnsupportedFormat \<noteq> ParseFailure_word"
  by (simp_all add: UnsupportedFormat_def ReadFailure_onerror_def ReadFailure_noresult_def
        ParseFailure_pdf_def ParseFailure_word_def)

lemma try_block_fails_iff:
  "try_block env file n = Inl err \<longleftrightarrow>
     (extractTextFromFile env file = Inl err \<or>
      (\<exists>fileText. extractTextFromFile env file = Inr fileText \<and>
         (validate fileText = Inl err \<or>
          (validate fileText = Inr () \<and> generateQuizFromText env fileText n = Inl err))))"
  by (auto simp: try_block_def split: sum.splits)

lemma try_block_succeeds_iff:
  "try_block env file n = Inr questions \<longleftrightarrow>
     (\<exists>fileText. extractTextFromFile env file = Inr fileText \<and> 100 \<le> length (trim fileText) \<and>
        generateQuizFromText env fileText n = Inr questions)"
  by (auto simp: try_block_def validate_def Let_def split: sum.splits)

lemma calls_failure:
  "try_block env file n = Inl err \<Longrightarrow>
   handleQuizGenerate_calls env file n d =
     [setAppState Generating, setError None, setError (Some (errorMessage err)), setAppState Setup]"
  by (simp add: handleQuizGenerate_calls_def)

lemma calls_success:
  "try_block env file n = Inr questions \<Longrightarrow>
   handleQuizGenerate_calls env file n d =
     [setAppState Generating, setError None, setQuizQuestions questions,
      setUserAnswers (array_fill (length questions) []), setTimerDuration d,
      setCurrentQuestionIndex 0, setAppState Quiz]"
  by (simp add: handleQuizGenerate_calls_def)

subsection \<open>The concrete inputs evaluated\<close>

lemma ext_docx: "file_extension docx_file = Some ''docx''"
  by (simp add: file_extension_def docx_file_def pop_def toLowerCase_simps)

lemma ext_txt: "file_extension txt_file = Some ''txt''"
  by (simp add: file_extension_def txt_file_def pop_def toLowerCase_simps)

lemma ext_txt_unreadable: "file_extension txt_file_unreadable = Some ''txt''"
  by (simp add: file_extension_def txt_file_unreadable_def pop_def toLowerCase_simps)

lemma ext_pdf_one: "file_extension pdf_file_one = Some ''pdf''"
  by (simp add: file_extension_def pdf_file_one_def pop_def toLowerCase_simps)

lemma ext_pdf_two: "file_extension pdf_file_two = Some ''pdf''"
  by (simp add: file_extension_def pdf_file_two_def pop_def toLowerCase_simps)

lemma ext_pdf_broken: "file_extension pdf_file_broken = Some ''pdf''"
  by (simp add: file_extension_def pdf_file_broken_def pop_def toLowerCase_simps)

lemma long_text_length: "length (trim long_text) = 114"
  by (simp add: long_text_def trim_def isWhiteSpace_def)

lemma extract_docx_file: "extractTextFromFile env0 docx_file = Inr long_text"
  using ext_docx
  by (simp add: extractTextFromFile_def Let_def parse_body_def docx_file_def env0_def)

lemma extract_txt_file: "extractTextFromFile env0 txt_file = Inl UnsupportedFormat"
  using ext_txt
  by (simp add: extractTextFromFile_def Let_def parse_body_def txt_file_def)

lemma extract_pdf_file_two:
  "extractTextFromFile env0 pdf_file_two =
     Inr (''Hello world'' @ [CHR 0x0A, CHR 0x0A] @ ''Bye'' @ [CHR 0x0A, CHR 0x0A])"
  using ext_pdf_two
  by (simp add: extractTextFromFile_def Let_def parse_body_def pdf_file_two_def env0_def
        pdf_pages_loop.simps two_page_pdf_def page_one_def page_two_def)

lemma validate_pdf_file_two:
  "validate (''Hello world'' @ [CHR 0x0A, CHR 0x0A] @ ''Bye'' @ [CHR 0x0A, CHR 0x0A]) =
     Inl (TooShort 16 (''Hello world'' @ [CHR 0x0A, CHR 0x0A] @ ''Bye''))"
proof -
  have t: "trim (''Hello world'' @ [CHR 0x0A, CHR 0x0A] @ ''Bye'' @ [CHR 0x0A, CHR 0x0A]) =
      ''Hello world'' @ [CHR 0x0A, CHR 0x0A] @ ''Bye''"
    by (simp add: trim_def isWhiteSpace_def)
  have n: "length (''Hello world'' @ [CHR 0x0A, CHR 0x0A] @ ''Bye'') = 16"
    by simp
  show ?thesis
    unfolding validate_def Let_def t n by (simp add: substring_def)
qed

lemma extract_docx_file_rejecting: "extractTextFromFile env_rejecting docx_file = Inr long_text"
  using ext_docx
  by (simp add: extractTextFromFile_def Let_def parse_body_def docx_file_def env_rejecting_def
        env0_def)

lemma validate_long_text: "validate long_text = Inr ()"
  by (simp add: validate_def Let_def long_text_length)

lemma generate_long_text: "generateQuizFromText env0 long_text 3 = Inr [q1, q2, q3]"
  by (simp add: env0_def)

lemma try_block_docx_file: "try_block env0 docx_file 3 = Inr [q1, q2, q3]"
  unfolding try_block_succeeds_iff
  using extract_docx_file generate_long_text long_text_length by simp

lemma installed_eq:
  "installed =
     \<lparr>appState = Quiz, quizQuestions = [q1, q2, q3],
      userAnswers = \<lparr>elems = [Some [], Some [], Some []], props = []\<rparr>,
      currentQuestionIndex = 0, timerDuration = 45, error = None\<rparr>"
  using calls_success [OF try_block_docx_file, of 45]
  by (simp add: installed_def handleQuizGenerate_def App_initial_def array_fill_def
        eval_nat_numeral)

lemma jumped_out_eq:
  "jumped_out =
     \<lparr>appState = Quiz, quizQuestions = [q1, q2, q3],
      userAnswers = \<lparr>elems = [Some [], Some [], Some []], props = []\<rparr>,
      currentQuestionIndex = 5, timerDuration = 45, error = None\<rparr>"
  by (simp add: jumped_out_def installed_eq handleQuizFinish_def handleJumpToQuestion_def)

lemma extract_docx_file_empty: "extractTextFromFile env_empty docx_file = Inr long_text"
  using ext_docx
  by (simp add: extractTextFromFile_def Let_def parse_body_def docx_file_def env_empty_def env0_def)

lemma try_block_empty: "try_block env_empty docx_file 3 = Inr []"
  unfolding try_block_succeeds_iff
  using extract_docx_file_empty long_text_length by (simp add: env_empty_def)

lemma installed_empty_eq:
  "installed_empty =
     \<lparr>appState = Quiz, quizQuestions = [], userAnswers = \<lparr>elems = [], props = []\<rparr>,
      currentQuestionIndex = 0, timerDuration = 45, error = None\<rparr>"
  using calls_success [OF try_block_empty, of 45]
  by (simp add: installed_empty_def handleQuizGenerate_def App_initial_def array_fill_def)

subsection \<open>Every handler keeps the session invariant\<close>

lemma session_inv_answer:
  "session_inv s \<Longrightarrow> session_inv (handleAnswerSelect answer s)"
  by (simp add: session_inv_def handleAnswerSelect_def Let_def array_length_set_in_range)

lemma session_inv_next: "session_inv s \<Longrightarrow> session_inv (handleNextQuestion s)"
  by (simp add: session_inv_def handleNextQuestion_def)

lemma session_inv_prev: "session_inv s \<Longrightarrow> session_inv (handlePrevQuestion s)"
  by (simp add: session_inv_def handlePrevQuestion_def)

lemma phase_inv_generate:
  assumes "try_block env file n \<noteq> Inr []"
  shows "phase_inv (handleQuizGenerate env file n d s)"
proof (cases "try_block env file n")
  case (Inl err)
  then show ?thesis
    by (simp add: phase_inv_def handleQuizGenerate_def calls_failure)
next
  case (Inr questions)
  with assms have "questions \<noteq> []" by simp
  with Inr show ?thesis
    by (simp add: phase_inv_def session_inv_def handleQuizGenerate_def calls_success
          array_fill_def array_length_def)
qed

lemma phase_inv_dispatch:
  "phase_inv s \<Longrightarrow> admissible e s \<Longrightarrow> phase_inv (dispatch e s)"
proof (cases e)
  case (Generate env f n d)
  assume "phase_inv s" "admissible e s"
  with Generate show ?thesis by (simp add: phase_inv_generate)
next
  case (AnswerSelect answer)
  assume "phase_inv s" "admissible e s"
  with AnswerSelect show ?thesis
    using session_inv_answer [of s answer]
    by (auto simp: phase_inv_def handleAnswerSelect_def Let_def)
next
  case Next
  assume "phase_inv s" "admissible e s"
  with Next show ?thesis
    using session_inv_next [of s] by (auto simp: phase_inv_def handleNextQuestion_def)
next
  case Prev
  assume "phase_inv s" "admissible e s"
  with Prev show ?thesis
    using session_inv_prev [of s] by (auto simp: phase_inv_def handlePrevQuestion_def)
next
  case Finish
  assume "phase_inv s" "admissible e s"
  with Finish show ?thesis
    by (auto simp: phase_inv_def session_inv_def handleQuizFinish_def)
next
  case (JumpToQuestion index)
  assume "phase_inv s" "admissible e s"
  with JumpToQuestion show ?thesis
    by (auto simp: phase_inv_def session_inv_def handleJumpToQuestion_def)
next
  case FinalSubmit
  assume "phase_inv s" "admissible e s"
  with FinalSubmit show ?thesis
    by (auto simp: phase_inv_def handleFinalSubmit_def)
next
  case Retry
  assume "phase_inv s" "admissible e s"
  with Retry show ?thesis
    by (auto simp: phase_inv_def handleRetry_def)
qed

lemma phase_inv_run:
  "phase_inv s \<Longrightarrow> admissible_run es s \<Longrightarrow> phase_inv (run es s)"
  by (induction es arbitrary: s) (simp_all add: phase_inv_dispatch)

section \<open>Failure of a submission\<close>

text \<open>
  C1. Whenever a step of the pipeline fails (extraction, validation or generation), the
  handler catches the failure, stores its message as the error message (the fixed
  "unknown error" text when the thrown value is no \<open>Error\<close> object) and returns to
  \<open>setup\<close>. Questions, answers, current index and timer duration are those of the state
  before the submission, in the final state and after every single setter call on the
  way: no partly installed session is ever there to be seen.
\<close>

theorem generate_failure_returns_to_setup:
  assumes "extractTextFromFile env file = Inl err \<or>
      (\<exists>fileText. extractTextFromFile env file = Inr fileText \<and>
         (validate fileText = Inl err \<or>
          (validate fileText = Inr () \<and> generateQuizFromText env fileText n = Inl err)))"
  shows "handleQuizGenerate env file n d s =
           s\<lparr>error := Some (errorMessage err), appState := Setup\<rparr> \<and>
         (\<forall>s' \<in> set (states_after (handleQuizGenerate_calls env file n d) s).
            quizQuestions s' = quizQuestions s \<and> userAnswers s' = userAnswers s \<and>
            currentQuestionIndex s' = currentQuestionIndex s \<and>
            timerDuration s' = timerDuration s)"
proof -
  from assms have "try_block env file n = Inl err"
    by (simp add: try_block_fails_iff)
  then have "handleQuizGenerate_calls env file n d =
     [setAppState Generating, setError None, setError (Some (errorMessage err)), setAppState Setup]"
    by (rule calls_failure)
  then show ?thesis
    by (simp add: handleQuizGenerate_def)
qed

theorem generate_failure_returns_to_setup_witness:
  "handleQuizGenerate env0 txt_file 3 45 App_initial =
     App_initial\<lparr>error := Some ''Unsupported file type. Please upload a PDF, DOC, or DOCX file.'',
                 appState := Setup\<rparr> \<and>
   handleQuizGenerate env0 pdf_file_two 3 45 App_initial =
     App_initial\<lparr>error := Some (errorMessage
                   (TooShort 16 (''Hello world'' @ [CHR 0x0A, CHR 0x0A] @ ''Bye''))),
                 appState := Setup\<rparr> \<and>
   handleQuizGenerate env_rejecting docx_file 3 45 App_initial =
     App_initial\<lparr>error := Some ''An unknown error occurred while generating the quiz.'',
                 appState := Setup\<rparr> \<and>
   quizQuestions (handleQuizGenerate env0 txt_file 3 45 App_initial) = [] \<and>
   timerDuration (handleQuizGenerate env0 txt_file 3 45 App_initial) = 30"
proof -
  have gen: "generateQuizFromText env_rejecting long_text 3 = Inl NonError"
    by (simp add: env_rejecting_def)
  have a: "handleQuizGenerate env0 txt_file 3 45 App_initial =
     App_initial\<lparr>error := Some ''Unsupported file type. Please upload a PDF, DOC, or DOCX file.'',
                 appState := Setup\<rparr>"
    using generate_failure_returns_to_setup [of env0 txt_file UnsupportedFormat 3 45 App_initial]
      extract_txt_file
    by (simp add: errorMessage_def UnsupportedFormat_def)
  have b: "handleQuizGenerate env0 pdf_file_two 3 45 App_initial =
     App_initial\<lparr>error := Some (errorMessage
                   (TooShort 16 (''Hello world'' @ [CHR 0x0A, CHR 0x0A] @ ''Bye''))),
                 appState := Setup\<rparr>"
    using generate_failure_returns_to_setup
      [of env0 pdf_file_two "TooShort 16 (''Hello world'' @ [CHR 0x0A, CHR 0x0A] @ ''Bye'')"
          3 45 App_initial]
      extract_pdf_file_two validate_pdf_file_two
    by simp
  have c: "handleQuizGenerate env_rejecting docx_file 3 45 App_initial =
     App_initial\<lparr>error := Some ''An unknown error occurred while generating the quiz.'',
                 appState := Setup\<rparr>"
    using generate_failure_returns_to_setup [of env_rejecting docx_file NonError 3 45 App_initial]
      extract_docx_file_rejecting validate_long_text gen
    by (simp add: errorMessage_def)
  from a b c show ?thesis
    by (simp add: App_initial_def)
qed

section \<open>The session invariant\<close>

text \<open>
  C2, as amended. \<open>handleJumpToQuestion\<close> has no guard: from \<open>review\<close> it sets the
  current index to whatever index it is given and moves to \<open>quiz\<close>. The invariant
  \<open>0 \<le> currentIndex < len(questions)\<close> and \<open>len(userAnswers) = len(questions)\<close>
  holds in every quiz or review state reached from a freshly installed session with at
  least one question, as long as every jump names an existing question and every later
  generation again returns at least one question.
\<close>

theorem session_invariant_under_admissible_events:
  assumes "try_block env file n = Inr questions"
    and "questions \<noteq> []"
    and "admissible_run es (handleQuizGenerate env file n d s0)"
    and "s = run es (handleQuizGenerate env file n d s0)"
  shows "(appState s = Quiz \<or> appState s = Review \<longrightarrow>
            0 \<le> currentQuestionIndex s \<and>
            currentQuestionIndex s < int (length (quizQuestions s)) \<and>
            array_length (userAnswers s) = length (quizQuestions s)) \<and>
         (appState s = Review \<longrightarrow>
            dispatch (JumpToQuestion i) s = s\<lparr>currentQuestionIndex := i, appState := Quiz\<rparr>)"
proof -
  from assms(1,2) have "try_block env file n \<noteq> Inr []" by simp
  then have "phase_inv (handleQuizGenerate env file n d s0)"
    by (rule phase_inv_generate)
  then have "phase_inv s"
    unfolding assms(4) using assms(3) by (rule phase_inv_run)
  then show ?thesis
    by (simp add: phase_inv_def session_inv_def handleJumpToQuestion_def)
qed

theorem session_invariant_under_admissible_events_witness:
  "appState (run [AnswerSelect ''4'', Next, Finish, JumpToQuestion 2, Prev, Finish] installed) = Review \<and>
   currentQuestionIndex (run [AnswerSelect ''4'', Next, Finish, JumpToQuestion 2, Prev, Finish] installed) = 1 \<and>
   currentQuestionIndex (run [AnswerSelect ''4'', Next, Finish, JumpToQuestion 2, Prev, Finish] installed)
     < int (length (quizQuestions (run [AnswerSelect ''4'', Next, Finish, JumpToQuestion 2, Prev, Finish] installed))) \<and>
   array_length (userAnswers (run [AnswerSelect ''4'', Next, Finish, JumpToQuestion 2, Prev, Finish] installed)) = 3"
proof -
  let ?es = "[AnswerSelect ''4'', Next, Finish, JumpToQuestion 2, Prev, Finish]"
  have ne: "[q1, q2, q3] \<noteq> []" by simp
  have adm: "admissible_run ?es (handleQuizGenerate env0 docx_file 3 45 App_initial)"
    unfolding installed_def [symmetric]
    by (simp add: installed_eq handleAnswerSelect_def Let_def array_set_def array_spread_def
          handleNextQuestion_def handlePrevQuestion_def handleQuizFinish_def
          handleJumpToQuestion_def)
  have val: "run ?es installed =
     \<lparr>appState = Review, quizQuestions = [q1, q2, q3],
      userAnswers = \<lparr>elems = [Some ''4'', Some [], Some []], props = []\<rparr>,
      currentQuestionIndex = 1, timerDuration = 45, error = None\<rparr>"
    by (simp add: installed_eq handleAnswerSelect_def Let_def array_set_def array_spread_def
          handleNextQuestion_def handlePrevQuestion_def handleQuizFinish_def
          handleJumpToQuestion_def)
  show ?thesis
    using session_invariant_under_admissible_events
      [OF try_block_docx_file ne adm installed_def [THEN arg_cong [of _ _ "run ?es"]], of 0]
    unfolding val by simp
qed

text \<open>
  The claim as first stated fails twice. With three questions installed, \<open>finish\<close>
  followed by \<open>jumpToQuestion(5)\<close> leads to the quiz phase with current index 5, and
  an answer selected there makes the answer array six long. And when the producer
  returns an empty list, the session is installed in the quiz phase with index 0 and no
  question at all.
\<close>

theorem jump_out_of_range_counterexample:
  "appState jumped_out = Quiz \<and>
   currentQuestionIndex jumped_out = 5 \<and>
   length (quizQuestions jumped_out) = 3 \<and>
   \<not> currentQuestionIndex jumped_out < int (length (quizQuestions jumped_out)) \<and>
   array_length (userAnswers (dispatch (AnswerSelect ''Paris'') jumped_out)) = 6 \<and>
   appState installed_empty = Quiz \<and>
   currentQuestionIndex installed_empty = 0 \<and>
   length (quizQuestions installed_empty) = 0"
  by (simp add: jumped_out_eq installed_empty_eq handleAnswerSelect_def Let_def array_set_def
        array_spread_def array_length_def)

section \<open>Routing by file-name extension\<close>

text \<open>
  C3, as amended. The file is read first and its extension is looked at afterwards. A
  failed read ends extraction with the read failure, whatever the extension. Once the
  bytes are there: an extension (lower-cased) other than \<open>pdf\<close>, \<open>doc\<close> and \<open>docx\<close>
  fails with \<open>UnsupportedFormat\<close>, and no decoder takes part in that answer; \<open>pdf\<close>
  goes to the PDF decoder, \<open>doc\<close> and \<open>docx\<close> go to the Word decoder.
\<close>

theorem extraction_routes_by_extension:
  "(readAsArrayBuffer file = onerror \<longrightarrow>
      extractTextFromFile env file = Inl ReadFailure_onerror) \<and>
   (readAsArrayBuffer file = onload None \<longrightarrow>
      extractTextFromFile env file = Inl ReadFailure_noresult) \<and>
   (readAsArrayBuffer file = onload (Some buf) \<longrightarrow>
      (file_extension file = Some ''pdf'' \<longrightarrow>
         extractTextFromFile env file =
           (case getDocument env buf of
              Inl e \<Rightarrow> Inl ParseFailure_pdf
            | Inr pdf \<Rightarrow>
                (case pdf_pages_loop pdf 1 [] of
                   Inl e \<Rightarrow> Inl ParseFailure_pdf
                 | Inr fullText \<Rightarrow> Inr fullText))) \<and>
      (file_extension file = Some ''doc'' \<or> file_extension file = Some ''docx'' \<longrightarrow>
         extractTextFromFile env file =
           (case extractRawText env buf of
              Inl e \<Rightarrow> Inl ParseFailure_word
            | Inr v \<Rightarrow> Inr v)) \<and>
      (file_extension file \<noteq> Some ''pdf'' \<and> file_extension file \<noteq> Some ''doc'' \<and>
       file_extension file \<noteq> Some ''docx'' \<longrightarrow>
         extractTextFromFile env file = Inl UnsupportedFormat \<and>
         extractTextFromFile env file = extractTextFromFile env' file))"
  by (auto simp: extractTextFromFile_def Let_def parse_body_def split: sum.splits)

theorem extraction_routes_by_extension_witness:
  "extractTextFromFile env0 txt_file = Inl UnsupportedFormat \<and>
   extractTextFromFile env0 docx_file = Inr long_text \<and>
   extractTextFromFile env0 pdf_file_one = Inr (''Hello world'' @ [CHR 0x0A, CHR 0x0A]) \<and>
   extractTextFromFile env0 txt_file_unreadable = Inl ReadFailure_onerror"
proof -
  have "extractTextFromFile env0 txt_file = Inl UnsupportedFormat"
    using extraction_routes_by_extension [of txt_file env0 "[7]" env0]
    by (simp add: ext_txt) (simp add: txt_file_def)
  moreover have "extractTextFromFile env0 docx_file = Inr long_text"
    using extraction_routes_by_extension [of docx_file env0 "[7]" env0]
    by (simp add: ext_docx) (simp add: docx_file_def env0_def)
  moreover have "extractTextFromFile env0 pdf_file_one = Inr (''Hello world'' @ [CHR 0x0A, CHR 0x0A])"
    using extraction_routes_by_extension [of pdf_file_one env0 "[1]" env0]
    by (simp add: ext_pdf_one)
       (simp add: pdf_file_one_def env0_def pdf_pages_loop.simps one_page_pdf_def page_one_def)
  moreover have "extractTextFromFile env0 txt_file_unreadable = Inl ReadFailure_onerror"
    using extraction_routes_by_extension [of txt_file_unreadable env0 "[]" env0]
    by (simp add: txt_file_unreadable_def)
  ultimately show ?thesis by simp
qed

text \<open>
  The claim as first stated fails: \<open>notes.txt\<close> has an unsupported extension, and when
  reading it fails the extraction ends with the read failure, not with
  \<open>UnsupportedFormat\<close>. The read comes before the look at the extension.
\<close>

theorem unsupported_unreadable_counterexample:
  "file_extension txt_file_unreadable = Some ''txt'' \<and>
   extractTextFromFile env0 txt_file_unreadable = Inl ReadFailure_onerror \<and>
   extractTextFromFile env0 txt_file_unreadable \<noteq> Inl UnsupportedFormat"
  using ext_txt_unreadable
  by (simp add: extractTextFromFile_def txt_file_unreadable_def
        ReadFailure_onerror_def UnsupportedFormat_def)

section \<open>Validation of the extracted text\<close>

text \<open>
  C4. For every text, validation fails if and only if the trimmed text is shorter than
  100 characters. When it fails it fails with \<open>TooShort\<close>: an \<open>Error\<close> whose message
  is the template of the source filled with the decimal digits of the length of the
  trimmed text and, as snippet, with the first \<open>min(100, length)\<close> characters of the
  trimmed text. The digits read back as that length, and the message admits no other
  length and no other snippet.
\<close>

theorem validate_too_short_iff:
  "(isl (validate text) \<longleftrightarrow> length (trim text) < 100) \<and>
   (length (trim text) < 100 \<longrightarrow>
      validate text =
        Inl (TooShort (length (trim text))
               (take (min 100 (length (trim text))) (trim text)))) \<and>
   (\<not> length (trim text) < 100 \<longrightarrow> validate text = Inr ()) \<and>
   (length (trim text) < 100 \<longrightarrow>
      validate text =
        Inl (Error (''Document content is too short ('' @ string_of_nat (length (trim text)) @
            '' characters) to generate a meaningful quiz. This can happen if the document is very brief or is image-based from which text cannot be extracted.'' @
            [CHR 0x0A, CHR 0x0A] @ ''Extracted text snippet: '' @ [CHR 0x22] @
            take (min 100 (length (trim text))) (trim text) @ ''...'' @ [CHR 0x22]))) \<and>
   nat_of_digits (string_of_nat (length (trim text))) = length (trim text) \<and>
   (\<forall>len snippet. validate text = Inl (TooShort len snippet) \<longrightarrow>
      len = length (trim text) \<and>
      snippet = take (min 100 (length (trim text))) (trim text))"
proof -
  have fails: "validate text =
        Inl (TooShort (length (trim text))
               (take (min 100 (length (trim text))) (trim text)))"
    if "length (trim text) < 100"
    using that by (simp add: validate_def Let_def substring_def)
  have passes: "validate text = Inr ()" if "\<not> length (trim text) < 100"
    using that by (simp add: validate_def Let_def)
  have iff: "isl (validate text) \<longleftrightarrow> length (trim text) < 100"
    by (simp add: validate_def Let_def)
  have message: "validate text =
        Inl (Error (''Document content is too short ('' @ string_of_nat (length (trim text)) @
            '' characters) to generate a meaningful quiz. This can happen if the document is very brief or is image-based from which text cannot be extracted.'' @
            [CHR 0x0A, CHR 0x0A] @ ''Extracted text snippet: '' @ [CHR 0x22] @
            take (min 100 (length (trim text))) (trim text) @ ''...'' @ [CHR 0x22]))"
    if "length (trim text) < 100"
    unfolding fails [OF that] by (simp add: TooShort_def)
  have only: "len = length (trim text) \<and>
      snippet = take (min 100 (length (trim text))) (trim text)"
    if "validate text = Inl (TooShort len snippet)" for len snippet
  proof -
    from that have "isl (validate text)" by simp
    with iff have "length (trim text) < 100" by simp
    from fails [OF this] that
    have "TooShort len snippet =
        TooShort (length (trim text)) (take (min 100 (length (trim text))) (trim text))"
      by simp
    then show ?thesis by (rule TooShort_inject)
  qed
  have A: "length (trim text) < 100 \<longrightarrow>
      validate text =
        Inl (TooShort (length (trim text))
               (take (min 100 (length (trim text))) (trim text)))"
    by (rule impI) (rule fails)
  have P: "\<not> length (trim text) < 100 \<longrightarrow> validate text = Inr ()"
    by (rule impI) (rule passes)
  have M: "length (trim text) < 100 \<longrightarrow>
      validate text =
        Inl (Error (''Document content is too short ('' @ string_of_nat (length (trim text)) @
            '' characters) to generate a meaningful quiz. This can happen if the document is very brief or is image-based from which text cannot be extracted.'' @
            [CHR 0x0A, CHR 0x0A] @ ''Extracted text snippet: '' @ [CHR 0x22] @
            take (min 100 (length (trim text))) (trim text) @ ''...'' @ [CHR 0x22]))"
    by (rule impI) (rule message)
  have D: "nat_of_digits (string_of_nat (length (trim text))) = length (trim text)"
    by (rule nat_of_digits_string_of_nat)
  have O: "\<forall>len snippet. validate text = Inl (TooShort len snippet) \<longrightarrow>
      len = length (trim text) \<and>
      snippet = take (min 100 (length (trim text))) (trim text)"
    by (intro allI impI) (rule only)
  show ?thesis
    by (rule conjI [OF iff conjI [OF A conjI [OF P conjI [OF M conjI [OF D O]]]]])
qed

theorem validate_too_short_iff_witness:
  "validate ''  short doc  '' =
     Inl (Error (''Document content is too short (9 characters) to generate a meaningful quiz. This can happen if the document is very brief or is image-based from which text cannot be extracted.'' @
                 [CHR 0x0A, CHR 0x0A] @ ''Extracted text snippet: '' @ [CHR 0x22] @
                 ''short doc...'' @ [CHR 0x22])) \<and>
   validate ''  short doc  '' = Inl (TooShort 9 ''short doc'') \<and>
   trim ''  short doc  '' = ''short doc'' \<and>
   nat_of_digits ''9'' = 9 \<and>
   validate long_text = Inr ()"
proof -
  have t: "trim ''  short doc  '' = ''short doc''"
    by (simp add: trim_def isWhiteSpace_def)
  have n: "length ''short doc'' = 9"
    by simp
  have d: "string_of_nat 9 = ''9''"
    by (simp add: string_of_nat.simps)
  have short: "length (trim ''  short doc  '') < 100"
    unfolding t n by simp
  have long: "\<not> length (trim long_text) < 100"
    unfolding long_text_length by simp
  note w = validate_too_short_iff [of "''  short doc  ''"]
  have a: "validate ''  short doc  '' = Inl (TooShort 9 ''short doc'')"
    using w [THEN conjunct2, THEN conjunct1, rule_format, OF short]
    unfolding t n by simp
  have m: "validate ''  short doc  '' =
     Inl (Error (''Document content is too short (9 characters) to generate a meaningful quiz. This can happen if the document is very brief or is image-based from which text cannot be extracted.'' @
                 [CHR 0x0A, CHR 0x0A] @ ''Extracted text snippet: '' @ [CHR 0x22] @
                 ''short doc...'' @ [CHR 0x22]))"
    using w [THEN conjunct2, THEN conjunct2, THEN conjunct2, THEN conjunct1, rule_format, OF short]
    unfolding t n d by simp
  have r: "nat_of_digits ''9'' = 9"
    using w [THEN conjunct2, THEN conjunct2, THEN conjunct2, THEN conjunct2, THEN conjunct1]
    unfolding t n d .
  have l: "validate long_text = Inr ()"
    using validate_too_short_iff [of long_text, THEN conjunct2, THEN conjunct2, THEN conjunct1, rule_format, OF long] .
  from m a t r l show ?thesis
    by (intro conjI)
qed

section \<open>Text of a PDF\<close>

text \<open>
  C5, as amended. For a readable file with extension \<open>pdf\<close> whose document opens: if
  every page from 1 to the last decodes, the extracted text is the concatenation, in page
  order, of each page's tokens joined by single spaces, each page followed by a blank
  line (two line feeds), the last page too. With at least one page this is the text of
  the specification with one more blank line at its end. If some page fails to decode,
  extraction fails with \<open>ParseFailure\<close> and returns no text at all.
\<close>

theorem pdf_text_is_pages_each_followed_by_blank_line:
  assumes "readAsArrayBuffer file = onload (Some buf)"
    and "file_extension file = Some ''pdf''"
    and "getDocument env buf = Inr pdf"
  shows
    "((\<forall>k. 1 \<le> k \<and> k \<le> numPages pdf \<longrightarrow>
         (\<exists>page. getPage pdf k = Inr page \<and> getTextContent page = Inr (items k))) \<longrightarrow>
        extractTextFromFile env file =
          Inr (concat (map (\<lambda>k. join (map str (items k)) '' '' @ [CHR 0x0A, CHR 0x0A])
                           [1..<Suc (numPages pdf)])) \<and>
        (0 < numPages pdf \<longrightarrow>
           extractTextFromFile env file =
             Inr (spec_pdf_text (map (\<lambda>k. map str (items k)) [1..<Suc (numPages pdf)])
                  @ [CHR 0x0A, CHR 0x0A]))) \<and>
     ((\<exists>k. 1 \<le> k \<and> k \<le> numPages pdf \<and>
           (isl (getPage pdf k) \<or>
            (\<exists>page. getPage pdf k = Inr page \<and> isl (getTextContent page)))) \<longrightarrow>
        extractTextFromFile env file = Inl ParseFailure_pdf)"
proof -
  have routed: "extractTextFromFile env file =
      (case pdf_pages_loop pdf 1 [] of
         Inl e \<Rightarrow> Inl ParseFailure_pdf
       | Inr fullText \<Rightarrow> Inr fullText)"
    using assms
    by (simp add: extractTextFromFile_def Let_def parse_body_def split: sum.splits)
  have ok: "extractTextFromFile env file =
          Inr (concat (map (\<lambda>k. join (map str (items k)) '' '' @ [CHR 0x0A, CHR 0x0A])
                           [1..<Suc (numPages pdf)]))"
    if all: "\<forall>k. 1 \<le> k \<and> k \<le> numPages pdf \<longrightarrow>
         (\<exists>page. getPage pdf k = Inr page \<and> getTextContent page = Inr (items k))"
    using pdf_pages_loop_all_decode [OF all, of "[]"] routed by simp
  have spec: "concat (map (\<lambda>k. join (map str (items k)) '' '' @ [CHR 0x0A, CHR 0x0A])
                           [1..<Suc (numPages pdf)]) =
      spec_pdf_text (map (\<lambda>k. map str (items k)) [1..<Suc (numPages pdf)]) @ [CHR 0x0A, CHR 0x0A]"
    if pos: "0 < numPages pdf"
  proof -
    have ne: "map (\<lambda>k. join (map str (items k)) '' '') [1..<Suc (numPages pdf)] \<noteq> []"
      using pos by simp
    show ?thesis
      using join_terminated [OF ne, of "[CHR 0x0A, CHR 0x0A]"]
      by (simp add: spec_pdf_text_def comp_def del: upt_Suc)
  qed
  have bad: "extractTextFromFile env file = Inl ParseFailure_pdf"
    if "\<exists>k. 1 \<le> k \<and> k \<le> numPages pdf \<and>
           (isl (getPage pdf k) \<or>
            (\<exists>page. getPage pdf k = Inr page \<and> isl (getTextContent page)))"
  proof -
    from that obtain k where k: "1 \<le> k" "k \<le> numPages pdf"
      "isl (getPage pdf k) \<or> (\<exists>page. getPage pdf k = Inr page \<and> isl (getTextContent page))"
      by blast
    have "isl (pdf_pages_loop pdf 1 [])"
      by (rule pdf_pages_loop_page_fails [OF k])
    with routed show ?thesis by (cases "pdf_pages_loop pdf 1 []") simp_all
  qed
  from ok spec bad show ?thesis by metis
qed

theorem pdf_text_is_pages_each_followed_by_blank_line_witness:
  "extractTextFromFile env0 pdf_file_two =
     Inr (''Hello world'' @ [CHR 0x0A, CHR 0x0A] @ ''Bye'' @ [CHR 0x0A, CHR 0x0A]) \<and>
   extractTextFromFile env0 pdf_file_two =
     Inr (spec_pdf_text [[''Hello'', ''world''], [''Bye'']] @ [CHR 0x0A, CHR 0x0A]) \<and>
   extractTextFromFile env0 pdf_file_broken = Inl ParseFailure_pdf"
proof -
  let ?items = "\<lambda>k::nat. if k = 1 then [\<lparr>str = ''Hello''\<rparr>, \<lparr>str = ''world''\<rparr>] else [\<lparr>str = ''Bye''\<rparr>]"
  have read2: "readAsArrayBuffer pdf_file_two = onload (Some [2])"
    by (simp add: pdf_file_two_def)
  have doc2: "getDocument env0 [2] = Inr two_page_pdf"
    by (simp add: env0_def)
  have all: "\<forall>k. 1 \<le> k \<and> k \<le> numPages two_page_pdf \<longrightarrow>
         (\<exists>page. getPage two_page_pdf k = Inr page \<and> getTextContent page = Inr (?items k))"
    by (simp add: two_page_pdf_def page_one_def page_two_def)
  have range: "[1..<Suc (numPages two_page_pdf)] = [1, 2]"
    by (simp add: two_page_pdf_def upt_rec)
  have pos: "0 < numPages two_page_pdf"
    by (simp add: two_page_pdf_def)
  have good: "extractTextFromFile env0 pdf_file_two =
     Inr (''Hello world'' @ [CHR 0x0A, CHR 0x0A] @ ''Bye'' @ [CHR 0x0A, CHR 0x0A]) \<and>
   extractTextFromFile env0 pdf_file_two =
     Inr (spec_pdf_text [[''Hello'', ''world''], [''Bye'']] @ [CHR 0x0A, CHR 0x0A])"
    using pdf_text_is_pages_each_followed_by_blank_line
      [OF read2 ext_pdf_two doc2, of ?items] all pos
    unfolding range by (simp add: spec_pdf_text_def)
  have read3: "readAsArrayBuffer pdf_file_broken = onload (Some [3])"
    by (simp add: pdf_file_broken_def)
  have doc3: "getDocument env0 [3] = Inr broken_pdf"
    by (simp add: env0_def)
  have fails: "\<exists>k. 1 \<le> k \<and> k \<le> numPages broken_pdf \<and>
           (isl (getPage broken_pdf k) \<or>
            (\<exists>page. getPage broken_pdf k = Inr page \<and> isl (getTextContent page)))"
    by (rule exI [of _ 2]) (simp add: broken_pdf_def page_broken_def)
  have bad: "extractTextFromFile env0 pdf_file_broken = Inl ParseFailure_pdf"
    using pdf_text_is_pages_each_followed_by_blank_line
      [OF read3 ext_pdf_broken doc3, of ?items] fails
    by blast
  from good bad show ?thesis by blast
qed

text \<open>
  The claim as first stated fails: a PDF of one page with the tokens \<open>Hello\<close> and
  \<open>world\<close> is extracted as \<open>Hello world\<close> followed by two line feeds, while the
  text with blank lines only between consecutive pages is \<open>Hello world\<close>.
\<close>

theorem pdf_trailing_blank_line_counterexample:
  "extractTextFromFile env0 pdf_file_one = Inr (''Hello world'' @ [CHR 0x0A, CHR 0x0A]) \<and>
   spec_pdf_text [[''Hello'', ''world'']] = ''Hello world'' \<and>
   extractTextFromFile env0 pdf_file_one \<noteq> Inr (spec_pdf_text [[''Hello'', ''world'']])"
  using ext_pdf_one
  by (simp add: extractTextFromFile_def Let_def parse_body_def pdf_file_one_def env0_def
        pdf_pages_loop.simps one_page_pdf_def page_one_def spec_pdf_text_def)

section \<open>Success of a submission\<close>

text \<open>
  C6. When extraction returns a text, the trimmed text has at least 100 characters and
  the quiz producer, called with the whole extracted text and the requested number of
  questions, returns a list, the handler ends in this state: the questions are exactly that
  list, the answers are as many empty strings, the current index is 0, the timer
  duration is the submitted one, the phase is \<open>quiz\<close> (and the error message is clear).
  The session is written only after the producer has returned, and the phase stays
  \<open>generating\<close> until the last setter call, which enters \<open>quiz\<close>.
\<close>

theorem generate_success_installs_session:
  assumes "extractTextFromFile env file = Inr fileText"
    and "100 \<le> length (trim fileText)"
    and "generateQuizFromText env fileText n = Inr questions"
  shows "handleQuizGenerate env file n d s =
           \<lparr>appState = Quiz, quizQuestions = questions,
            userAnswers = array_fill (length questions) [],
            currentQuestionIndex = 0, timerDuration = d, error = None\<rparr> \<and>
         elems (array_fill (length questions) []) = replicate (length questions) (Some []) \<and>
         array_length (array_fill (length questions) []) = length questions \<and>
         (\<forall>s' \<in> set (butlast (states_after (handleQuizGenerate_calls env file n d) s)).
            appState s' = Generating)"
proof -
  from assms have "try_block env file n = Inr questions"
    unfolding try_block_succeeds_iff by blast
  then have "handleQuizGenerate_calls env file n d =
     [setAppState Generating, setError None, setQuizQuestions questions,
      setUserAnswers (array_fill (length questions) []), setTimerDuration d,
      setCurrentQuestionIndex 0, setAppState Quiz]"
    by (rule calls_success)
  then show ?thesis
    by (simp add: handleQuizGenerate_def array_fill_def array_length_def)
qed

theorem generate_success_installs_session_witness:
  "handleQuizGenerate env0 docx_file 3 45 App_initial =
     \<lparr>appState = Quiz, quizQuestions = [q1, q2, q3],
      userAnswers = \<lparr>elems = [Some [], Some [], Some []], props = []\<rparr>,
      currentQuestionIndex = 0, timerDuration = 45, error = None\<rparr>"
proof -
  have len: "100 \<le> length (trim long_text)"
    by (simp add: long_text_length)
  show ?thesis
    using generate_success_installs_session
      [OF extract_docx_file len generate_long_text, of 45 App_initial]
    by (simp add: array_fill_def eval_nat_numeral)
qed

section \<open>Selecting an answer\<close>

text \<open>
  C7. For every state and every answer text, \<open>selectAnswer(text)\<close> makes
  \<open>userAnswers[currentIndex]\<close> read as that text and leaves the entry at every other
  array index as it was; nothing but the answers changes. A second call on the same
  question overwrites the entry: after two calls the state is the one the last call
  alone would have produced.
\<close>

theorem answer_select_overwrites:
  "array_get (userAnswers (handleAnswerSelect text s)) (currentQuestionIndex s) = Some text \<and>
   (\<forall>j. 0 \<le> j \<and> j \<noteq> currentQuestionIndex s \<longrightarrow>
        array_get (userAnswers (handleAnswerSelect text s)) j = array_get (userAnswers s) j) \<and>
   handleAnswerSelect text s = s\<lparr>userAnswers := userAnswers (handleAnswerSelect text s)\<rparr> \<and>
   handleAnswerSelect text (handleAnswerSelect earlier s) = handleAnswerSelect text s"
  by (simp add: handleAnswerSelect_def Let_def array_get_set_same array_get_set_other array_set_twice)

theorem answer_select_overwrites_witness:
  "array_get (userAnswers (handleAnswerSelect ''4'' installed)) 0 = Some ''4'' \<and>
   array_get (userAnswers (handleAnswerSelect ''4'' installed)) 1 = Some [] \<and>
   array_get (userAnswers installed) 1 = Some [] \<and>
   handleAnswerSelect ''4'' (handleAnswerSelect ''3'' installed) = handleAnswerSelect ''4'' installed"
proof -
  have idx: "currentQuestionIndex installed = 0"
    by (simp add: installed_eq)
  have old: "array_get (userAnswers installed) 1 = Some []"
    by (simp add: installed_eq array_get_def)
  from answer_select_overwrites [of "''4''" installed "''3''"]
  have "array_get (userAnswers (handleAnswerSelect ''4'' installed)) 0 = Some ''4''"
    and "(0::int) \<le> 1 \<and> (1::int) \<noteq> 0 \<longrightarrow>
         array_get (userAnswers (handleAnswerSelect ''4'' installed)) 1 =
         array_get (userAnswers installed) 1"
    and "handleAnswerSelect ''4'' (handleAnswerSelect ''3'' installed) =
         handleAnswerSelect ''4'' installed"
    unfolding idx by blast+
  with old show ?thesis by simp
qed

section \<open>Navigation\<close>

text \<open>
  C8. In the quiz phase, \<open>next\<close> adds one to the current index when it is below
  \<open>len(questions) - 1\<close> and changes nothing when it equals \<open>len(questions) - 1\<close>;
  \<open>prev\<close> subtracts one when the index is above zero and changes nothing when it is
  zero. At both boundaries the handler returns the state it was given: a no-op, not an
  error. In the other cases only the index changes.
\<close>

theorem next_prev_navigation:
  "(currentQuestionIndex s < int (length (quizQuestions s)) - 1 \<longrightarrow>
      handleNextQuestion s = s\<lparr>currentQuestionIndex := currentQuestionIndex s + 1\<rparr>) \<and>
   (currentQuestionIndex s = int (length (quizQuestions s)) - 1 \<longrightarrow>
      handleNextQuestion s = s) \<and>
   (currentQuestionIndex s > 0 \<longrightarrow>
      handlePrevQuestion s = s\<lparr>currentQuestionIndex := currentQuestionIndex s - 1\<rparr>) \<and>
   (currentQuestionIndex s = 0 \<longrightarrow> handlePrevQuestion s = s)"
  by (simp add: handleNextQuestion_def handlePrevQuestion_def)

theorem next_prev_navigation_witness:
  "handleNextQuestion installed = installed\<lparr>currentQuestionIndex := 1\<rparr> \<and>
   handlePrevQuestion installed = installed \<and>
   handlePrevQuestion (installed\<lparr>currentQuestionIndex := 2\<rparr>) =
     installed\<lparr>currentQuestionIndex := 1\<rparr> \<and>
   handleNextQuestion (installed\<lparr>currentQuestionIndex := 2\<rparr>) =
     installed\<lparr>currentQuestionIndex := 2\<rparr>"
  using next_prev_navigation [of installed]
    next_prev_navigation [of "installed\<lparr>currentQuestionIndex := 2\<rparr>"]
  by (simp add: installed_eq)

section \<open>Retry\<close>

text \<open>
  C9. \<open>retry\<close> moves the state to \<open>setup\<close> and resets the session: the question list
  and the answers become empty, the current index becomes 0 and the error message is
  cleared. The handler is wired to the results view only, and does this from any state.
\<close>

theorem retry_resets_session:
  "appState (handleRetry s) = Setup \<and>
   quizQuestions (handleRetry s) = [] \<and>
   userAnswers (handleRetry s) = array_empty \<and>
   array_length (userAnswers (handleRetry s)) = 0 \<and>
   currentQuestionIndex (handleRetry s) = 0 \<and>
   error (handleRetry s) = None \<and>
   dispatch Retry (s\<lparr>appState := Results\<rparr>) = handleRetry s"
  by (simp add: handleRetry_def array_empty_def array_length_def)

section \<open>The format tag of a file name\<close>

text \<open>
  C10. The extension is the lower-cased part of the file name after its last dot, and
  the whole lower-cased name when the name has no dot. So a readable file named just
  \<open>pdf\<close> is handled by the PDF decoder and does not fail with \<open>UnsupportedFormat\<close>.
\<close>

theorem extension_is_lowercased_last_segment:
  "(CHR ''.'' \<notin> set (name file) \<longrightarrow> file_extension file = Some (toLowerCase (name file))) \<and>
   (name file = a @ CHR ''.'' # b \<and> CHR ''.'' \<notin> set b \<longrightarrow>
      file_extension file = Some (toLowerCase b)) \<and>
   (name file = ''pdf'' \<and> readAsArrayBuffer file = onload (Some buf) \<longrightarrow>
      extractTextFromFile env file =
        (case getDocument env buf of
           Inl e \<Rightarrow> Inl ParseFailure_pdf
         | Inr pdf \<Rightarrow>
             (case pdf_pages_loop pdf 1 [] of
                Inl e \<Rightarrow> Inl ParseFailure_pdf
              | Inr fullText \<Rightarrow> Inr fullText)) \<and>
      extractTextFromFile env file \<noteq> Inl UnsupportedFormat)"
proof -
  have no_dot: "CHR ''.'' \<notin> set (name file) \<Longrightarrow>
      file_extension file = Some (toLowerCase (name file))"
    by (simp add: file_extension_def pop_def split_no_sep)
  have last_dot: "name file = a @ CHR ''.'' # b \<Longrightarrow> CHR ''.'' \<notin> set b \<Longrightarrow>
      file_extension file = Some (toLowerCase b)"
    by (simp add: file_extension_def pop_def split_not_Nil last_split_append)
  have pdf: "extractTextFromFile env file =
        (case getDocument env buf of
           Inl e \<Rightarrow> Inl ParseFailure_pdf
         | Inr pdf \<Rightarrow>
             (case pdf_pages_loop pdf 1 [] of
                Inl e \<Rightarrow> Inl ParseFailure_pdf
              | Inr fullText \<Rightarrow> Inr fullText)) \<and>
      extractTextFromFile env file \<noteq> Inl UnsupportedFormat"
    if "name file = ''pdf''" "readAsArrayBuffer file = onload (Some buf)"
  proof -
    have "file_extension file = Some ''pdf''"
      using that(1) by (simp add: file_extension_def pop_def toLowerCase_simps)
    with that(2) show ?thesis
      by (auto simp: extractTextFromFile_def Let_def parse_body_def failures_distinct [symmetric]
               split: sum.splits)
  qed
  from no_dot last_dot pdf show ?thesis by blast
qed

theorem extension_is_lowercased_last_segment_witness:
  "file_extension \<lparr>name = ''pdf'', readAsArrayBuffer = onload (Some [1])\<rparr> = Some ''pdf'' \<and>
   file_extension \<lparr>name = ''archive.tar.PDF'', readAsArrayBuffer = onload (Some [1])\<rparr> = Some ''pdf'' \<and>
   extractTextFromFile env0 \<lparr>name = ''pdf'', readAsArrayBuffer = onload (Some [1])\<rparr> =
     Inr (''Hello world'' @ [CHR 0x0A, CHR 0x0A])"
proof -
  have "file_extension \<lparr>name = ''pdf'', readAsArrayBuffer = onload (Some [1])\<rparr> = Some ''pdf''"
    using extension_is_lowercased_last_segment
      [of "\<lparr>name = ''pdf'', readAsArrayBuffer = onload (Some [1])\<rparr>" "[]" "[]" "[1]" env0]
    by (simp add: toLowerCase_simps)
  moreover have "file_extension \<lparr>name = ''archive.tar.PDF'', readAsArrayBuffer = onload (Some [1])\<rparr> = Some ''pdf''"
    using extension_is_lowercased_last_segment
      [of "\<lparr>name = ''archive.tar.PDF'', readAsArrayBuffer = onload (Some [1])\<rparr>"
          "''archive.tar''" "''PDF''" "[1]" env0]
    by (simp add: toLowerCase_simps)
  moreover have "extractTextFromFile env0 \<lparr>name = ''pdf'', readAsArrayBuffer = onload (Some [1])\<rparr> =
     Inr (''Hello world'' @ [CHR 0x0A, CHR 0x0A])"
    using extension_is_lowercased_last_segment
      [of "\<lparr>name = ''pdf'', readAsArrayBuffer = onload (Some [1])\<rparr>" "[]" "[]" "[1]" env0]
    by (simp add: env0_def pdf_pages_loop.simps one_page_pdf_def page_one_def)
  ultimately show ?thesis by simp
qed

end
